theory Spec2Isabelle
  imports Complex_Main
begin

section \<open>Rendered element trees\<close>

text \<open>
  A component of the repository is a TypeScript function returning JSX. Its result is
  modelled as an element tree: a string child, a number child, or an element with a tag,
  its props in source order, and its children. Children that React skips (\<open>false\<close>
  from \<open>cond && ...\<close>) are left out of the child list.

  Prop values keep the shape of the source expression: literals as literals, a reference
  to a named value of the module (a style of a \<open>StyleSheet\<close>, a handler declared in the
  component body) by its source name, an inline arrow function by what it calls.
\<close>

datatype handler =
    Named string                \<comment> \<open>\<open>onPress={handlePress}\<close>\<close>
  | AlertH "string list"         \<comment> \<open>\<open>() => Alert.alert(a, b)\<close>\<close>
  | LogH string                  \<comment> \<open>\<open>() => console.log(a)\<close>\<close>
  | SetH string                  \<comment> \<open>an arrow function calling the state setter of that name\<close>
  | CallH string "string list"   \<comment> \<open>\<open>() => handleActionPress('Save')\<close>\<close>
  | NoopH                        \<comment> \<open>\<open>() => {}\<close>\<close>

datatype prop_value =
    PStr string
  | PNum real
  | PBool bool
  | PRef string
  | PFn handler
  | PList "prop_value list"
  | PObj "(string \<times> prop_value) list"

datatype node =
    Str string
  | Num real
  | El string "(string \<times> prop_value) list" "node list"

fun tag :: "node \<Rightarrow> string" where
  "tag (El t ps cs) = t"
| "tag _ = []"


fun children :: "node \<Rightarrow> node list" where
  "children (El t ps cs) = cs"
| "children _ = []"

text \<open>Every node of a tree, the root first, in document order.\<close>

fun subnodes :: "node \<Rightarrow> node list" where
  "subnodes (El t ps cs) = El t ps cs # concat (map subnodes cs)"
| "subnodes n = [n]"

text \<open>
  How JavaScript prints a non-negative integer (\<open>String(n)\<close>, a template literal):
  its decimal digits, the most significant first.
\<close>

fun digits_rev :: "nat \<Rightarrow> nat list" where
  "digits_rev n = (if n < 10 then [n] else n mod 10 # digits_rev (n div 10))"

declare digits_rev.simps [simp del]

definition decimal :: "nat \<Rightarrow> string" where
  "decimal n = map (\<lambda>d. char_of (48 + d)) (rev (digits_rev n))"

definition decimal_int :: "int \<Rightarrow> string" where
  "decimal_int i = (if i < 0 then CHR ''-'' # decimal (nat (- i)) else decimal (nat i))"

text \<open>
  A JavaScript number is printed in plain decimal digits when it is an integer below
  \<open>10\<^sup>2\<^sup>1\<close> in magnitude. How a fraction or a larger value prints is not modelled:
  the result is \<open>None\<close>.
\<close>

definition number_text :: "real \<Rightarrow> string option" where
  "number_text r =
     (if of_int \<lfloor>r\<rfloor> = r \<and> \<bar>r\<bar> < 10 ^ 21 then Some (decimal_int \<lfloor>r\<rfloor>) else None)"

text \<open>\<open>Math.round\<close>: the nearest integer, a half rounded up.\<close>

definition Math_round :: "real \<Rightarrow> int" where
  "Math_round x = \<lfloor>x + 1 / 2\<rfloor>"

text \<open>
  The text an element shows: its string and number children and the text of nested
  elements, concatenated.
\<close>

fun all_some :: "'a option list \<Rightarrow> 'a list option" where
  "all_some [] = Some []"
| "all_some (None # xs) = None"
| "all_some (Some x # xs) = (case all_some xs of None \<Rightarrow> None | Some ys \<Rightarrow> Some (x # ys))"

fun text_of :: "node \<Rightarrow> string option" where
  "text_of (Str s) = Some s"
| "text_of (Num r) = number_text r"
| "text_of (El t ps cs) = map_option concat (all_some (map text_of cs))"

text \<open>Shorthands for an element whose only prop is a named style.\<close>

abbreviation Text :: "string \<Rightarrow> node list \<Rightarrow> node" where
  "Text st cs \<equiv> El ''Text'' [(''style'', PRef st)] cs"

abbreviation View :: "string \<Rightarrow> node list \<Rightarrow> node" where
  "View st cs \<equiv> El ''View'' [(''style'', PRef st)] cs"

text \<open>
  Characters outside ASCII in the source's string literals, as their UTF-8 bytes.
\<close>

definition bullet :: string where
  "bullet = [CHR 0xE2, CHR 0x80, CHR 0xA2]"

definition rarrow :: string where
  "rarrow = [CHR 0xE2, CHR 0x86, CHR 0x92]"

definition times_sign :: string where
  "times_sign = [CHR 0xC3, CHR 0x97]"

definition folder_sign :: string where
  "folder_sign = [CHR 0xF0, CHR 0x9F, CHR 0x93, CHR 0x81]"

section \<open>The platform a unit runs on\<close>

text \<open>
  What the units read from React Native's \<open>Platform\<close> and \<open>Dimensions\<close> modules.
  \<open>Platform.OS\<close> is a string; \<open>Platform.Version\<close> is a string on iOS, a number on
  Android and undefined on the web.
\<close>

datatype version = VString string | VNumber int | VUndefined

record ScaledSize =
  width :: real
  height :: real
  scale :: real
  fontScale :: real

record platform =
  OS :: string
  Version :: version
  isTV :: bool
  isTesting :: bool
  window :: ScaledSize

text \<open>
  A render either returns a tree or throws. A component is the function from the platform
  to the result of its first render, with its hooks at their initial values.
\<close>

datatype render_error = TypeError string  \<comment> \<open>the property read on \<open>undefined\<close>\<close>

type_synonym component = "platform \<Rightarrow> render_error + node"

section \<open>playground/test-app/app/concept.tsx\<close>

text \<open>
  \<open>TextBasicExample\<close> takes no argument and returns a fixed tree. JSX joins the lines of
  a multi-line text with one space and drops the indentation.
\<close>

definition TextBasicExample_view :: node where
  "TextBasicExample_view =
     (View ''styles.container''
        [Text ''styles.title'' [Str ''Text Component Examples''],
         Text ''styles.basicText'' [Str ''This is a basic text component''],
         Text ''styles.styledText'' [Str ''This text has custom styling''],
         Text ''styles.boldText'' [Str ''This text is bold''],
         Text ''styles.italicText'' [Str ''This text is italic''],
         Text ''styles.coloredText'' [Str ''This text has a custom color''],
         El ''Text''
           [(''style'', PList [PRef ''styles.boldText'', PRef ''styles.coloredText'', PRef ''styles.largeText''])]
           [Str ''This text combines multiple styles''],
         Text ''styles.basicText''
           [Str ''This is a paragraph with'', Str '' '',
            Text ''styles.highlightText'' [Str ''highlighted''],
            Str '' text and'', Str '' '',
            Text ''styles.boldText'' [Str ''bold''],
            Str '' text.''],
         Text ''styles.textWithLineHeight''
           [Str (''This text has increased line height for better readability. ''
              @ ''Lorem ipsum dolor sit amet, consectetur adipiscing elit. ''
              @ ''Sed do eiusmod tempor incididunt ut labore et dolore magna aliqua.'')],
         Text ''styles.centeredText'' [Str ''Centered Text''],
         Text ''styles.rightAlignedText'' [Str ''Right Aligned Text'']])"

definition TextBasicExample :: component where
  "TextBasicExample p = Inr TextBasicExample_view"

section \<open>button-basics.tsx\<close>

text \<open>
  The two handlers of \<open>ButtonBasics\<close> call \<open>Alert.alert\<close>; an alert is the list of its
  arguments.
\<close>

definition ButtonBasics_handlePress :: "string list" where
  "ButtonBasics_handlePress = [''Button Pressed!'', ''You tapped the button'']"

definition handleActionPress :: "string \<Rightarrow> string list" where
  "handleActionPress action = [''Action'', ''You selected: '' @ action]"

definition ButtonBasics_view :: node where
  "ButtonBasics_view =
     (View ''styles.container''
        [Text ''styles.title'' [Str ''React Native Button Examples''],
         View ''styles.section''
           [Text ''styles.sectionTitle'' [Str ''Basic Button''],
            El ''Button'' [(''title'', PStr ''Press Me''), (''onPress'', PFn (Named ''handlePress''))] []],
         View ''styles.section''
           [Text ''styles.sectionTitle'' [Str ''Colored Button''],
            El ''Button''
              [(''title'', PStr ''Blue Button''), (''color'', PStr ''#007AFF''),
               (''onPress'', PFn (AlertH [''Blue button pressed!'']))] []],
         View ''styles.section''
           [Text ''styles.sectionTitle'' [Str ''Disabled Button''],
            El ''Button''
              [(''title'', PStr ''Disabled''), (''disabled'', PBool True), (''onPress'', PFn NoopH)] []],
         View ''styles.section''
           [Text ''styles.sectionTitle'' [Str ''Action Buttons''],
            View ''styles.buttonGroup''
              [View ''styles.buttonWrapper''
                 [El ''Button''
                    [(''title'', PStr ''Save''), (''color'', PStr ''#28a745''),
                     (''onPress'', PFn (CallH ''handleActionPress'' [''Save'']))] []],
               View ''styles.buttonWrapper''
                 [El ''Button''
                    [(''title'', PStr ''Cancel''), (''color'', PStr ''#dc3545''),
                     (''onPress'', PFn (CallH ''handleActionPress'' [''Cancel'']))] []]]],
         View ''styles.noteSection''
           [Text ''styles.noteTitle'' [Str ''Button Limitations:''],
            Text ''styles.noteText''
              [Str (bullet @ '' Limited styling options''), Str [CHR 0x0A],
               Str (bullet @ '' Platform-specific appearance''), Str [CHR 0x0A],
               Str (bullet @ '' No custom layout flexibility''), Str [CHR 0x0A],
               Str (bullet @ '' Consider Pressable for custom designs'')]]])"

definition ButtonBasics :: component where
  "ButtonBasics p = Inr ButtonBasics_view"

section \<open>platform-detection.tsx\<close>

record colors =
  primary_color :: string
  background :: string
  text_color :: string

text \<open>
  What indexing an object literal with a string gives: a member the literal declares,
  a member inherited from \<open>Object.prototype\<close>, or \<open>undefined\<close>.
\<close>

datatype 'a lookup = Own 'a | Inherited | Undefined

definition Object_prototype_keys :: "string list" where
  "Object_prototype_keys =
     [''constructor'', ''hasOwnProperty'', ''isPrototypeOf'', ''propertyIsEnumerable'',
      ''toLocaleString'', ''toString'', ''valueOf'', ''__proto__'',
      ''__defineGetter__'', ''__defineSetter__'', ''__lookupGetter__'', ''__lookupSetter__'']"

text \<open>
  \<open>PLATFORM_COLORS\<close> declares the three keys \<open>ios\<close>, \<open>android\<close> and \<open>web\<close>.
  Indexing it with the name of a member of \<open>Object.prototype\<close> finds that member, which
  has no colour in it; indexing it with any other string gives \<open>undefined\<close>.
\<close>

definition PLATFORM_COLORS :: "string \<Rightarrow> colors lookup" where
  "PLATFORM_COLORS os =
     (if os = ''ios'' then Own \<lparr>primary_color = ''#007AFF'', background = ''#F2F2F7'', text_color = ''#000000''\<rparr>
      else if os = ''android'' then Own \<lparr>primary_color = ''#2196F3'', background = ''#FFFFFF'', text_color = ''#212121''\<rparr>
      else if os = ''web'' then Own \<lparr>primary_color = ''#0066CC'', background = ''#F5F5F5'', text_color = ''#333333''\<rparr>
      else if os \<in> set Object_prototype_keys then Inherited
      else Undefined)"

text \<open>
  \<^verbatim>\<open>useState({ platform: Platform.OS, version: Platform.Version, isTV: Platform.isTV,\<close>
  \<^verbatim>\<open>           isTesting: Platform.isTesting, dimensions: Dimensions.get('window') })\<close>
\<close>

record deviceInfo =
  di_platform :: string
  di_version :: version
  di_isTV :: bool
  di_isTesting :: bool
  dimensions :: ScaledSize

definition deviceInfo_init :: "platform \<Rightarrow> deviceInfo" where
  "deviceInfo_init p =
     \<lparr>di_platform = OS p, di_version = Version p, di_isTV = isTV p,
      di_isTesting = isTesting p, dimensions = window p\<rparr>"

text \<open>The listener of the effect: \<^verbatim>\<open>setDeviceInfo(prev => ({ ...prev, dimensions: window }))\<close>\<close>

definition on_dimensions_change :: "ScaledSize \<Rightarrow> deviceInfo \<Rightarrow> deviceInfo" where
  "on_dimensions_change w prev = prev\<lparr>dimensions := w\<rparr>"

text \<open>
  \<^verbatim>\<open>{Platform.OS} {Platform.OS === 'ios' ? '(iOS)' : Platform.OS === 'android' ? '(Android)' : '(Other)'}\<close>
  The two expressions stand on one line with a space between them, which JSX keeps.
\<close>

definition platform_suffix :: "string \<Rightarrow> string" where
  "platform_suffix os =
     (if os = ''ios'' then ''(iOS)'' else if os = ''android'' then ''(Android)'' else ''(Other)'')"

definition platform_card :: "platform \<Rightarrow> node" where
  "platform_card p =
     View ''platformStyles.infoCard''
       [Text ''platformStyles.label'' [Str ''Platform''],
        Text ''platformStyles.value'' [Str (OS p), Str '' '', Str (platform_suffix (OS p))]]"

text \<open>
  \<^verbatim>\<open>{typeof Platform.Version === 'string' ? Platform.Version : `API Level ${Platform.Version}`}\<close>
\<close>

definition version_text :: "version \<Rightarrow> string" where
  "version_text v =
     (case v of VString s \<Rightarrow> s
      | VNumber n \<Rightarrow> ''API Level '' @ decimal_int n
      | VUndefined \<Rightarrow> ''API Level undefined'')"

text \<open>
  The component body builds \<open>platformStyles\<close> first; it reads
  \<open>PLATFORM_COLORS[Platform.OS].background\<close>, which throws a TypeError when the lookup
  \<open>PLATFORM_COLORS[Platform.OS]\<close> is \<open>undefined\<close>. On an inherited member the read
  gives \<open>undefined\<close> colours and the render goes on. The style objects themselves are
  referred to by name in the tree.
\<close>

definition PlatformDetectionExample_render :: "platform \<Rightarrow> deviceInfo \<Rightarrow> render_error + node" where
  "PlatformDetectionExample_render p d =
     (case PLATFORM_COLORS (OS p) of
        Undefined \<Rightarrow> Inl (TypeError ''background'')
      | _ \<Rightarrow> Inr
          (View ''platformStyles.container''
             ([Text ''platformStyles.header'' [Str ''Platform Detection Demo''],
               platform_card p,
               View ''platformStyles.infoCard''
                 [Text ''platformStyles.label'' [Str ''Platform Version''],
                  Text ''platformStyles.value'' [Str (version_text (Version p))]],
               View ''platformStyles.infoCard''
                 [Text ''platformStyles.label'' [Str ''Device Type''],
                  Text ''platformStyles.value''
                    [Str (if isTV p then ''TV Device'' else ''Mobile/Tablet Device'')]],
               View ''platformStyles.infoCard''
                 [Text ''platformStyles.label'' [Str ''Testing Environment''],
                  Text ''platformStyles.value''
                    [Str (if isTesting p then ''Running in test environment'' else ''Production environment'')]],
               View ''platformStyles.infoCard''
                 [Text ''platformStyles.label'' [Str ''Screen Dimensions''],
                  Text ''platformStyles.value''
                    [Num (of_int (Math_round (width (dimensions d)))),
                     Str ('' '' @ times_sign @ '' ''),
                     Num (of_int (Math_round (height (dimensions d)))),
                     Str '' pixels''],
                  El ''Text''
                    [(''style'', PList [PRef ''platformStyles.value'',
                        PObj [(''fontSize'', PNum 12), (''marginTop'', PNum 4), (''opacity'', PNum (7 / 10))]])]
                    [Str ''Scale: '', Num (scale (dimensions d)), Str ''x, Font Scale: '',
                     Num (fontScale (dimensions d)), Str ''x'']],
               View ''platformStyles.infoCard''
                 [Text ''platformStyles.label'' [Str ''Platform-Specific Features''],
                  Text ''platformStyles.value''
                    ((if OS p = ''ios'' then [Str ''iOS: Face ID, 3D Touch, iOS-specific animations''] else [])
                     @ (if OS p = ''android''
                        then [Str ''Android: Material Design, Hardware back button, Android intents''] else [])
                     @ (if OS p = ''web'' then [Str ''Web: Browser APIs, Responsive design, URL routing''] else []))]]
              @ (if OS p = ''ios''
                 then [El ''View''
                         [(''style'', PList [PRef ''platformStyles.infoCard'',
                             PObj [(''backgroundColor'', PStr ''#E3F2FD'')]])]
                         [Text ''platformStyles.label'' [Str ''iOS-Only Feature''],
                          Text ''platformStyles.value'' [Str ''This card only appears on iOS devices'']]]
                 else [])
              @ (if OS p = ''android''
                 then [El ''View''
                         [(''style'', PList [PRef ''platformStyles.infoCard'',
                             PObj [(''backgroundColor'', PStr ''#E8F5E8'')]])]
                         [Text ''platformStyles.label'' [Str ''Android-Only Feature''],
                          Text ''platformStyles.value'' [Str ''This card only appears on Android devices'']]]
                 else []))))"

definition PlatformDetectionExample :: component where
  "PlatformDetectionExample p = PlatformDetectionExample_render p (deviceInfo_init p)"

section \<open>playground/test-app/app/_layout.tsx\<close>

definition RootLayout :: node where
  "RootLayout =
     El ''Fragment'' []
       [El ''StatusBar'' [(''style'', PStr ''auto'')] [],
        El ''Stack''
          [(''screenOptions'', PObj
              [(''headerStyle'', PObj [(''backgroundColor'', PStr ''#2563eb'')]),
               (''headerTintColor'', PStr ''#fff''),
               (''headerTitleStyle'', PObj [(''fontWeight'', PStr ''bold'')])])]
          [El ''Stack.Screen''
             [(''name'', PStr ''index''), (''options'', PObj [(''title'', PStr ''React Native Test App'')])] [],
           El ''Stack.Screen''
             [(''name'', PStr ''concept''), (''options'', PObj [(''title'', PStr ''Test Concept'')])] []]]"



fun screen_name :: "node \<Rightarrow> string list" where
  "screen_name (El t ps cs) =
     (if t = ''Stack.Screen'' then (case map_of ps ''name'' of Some (PStr n) \<Rightarrow> [n] | _ \<Rightarrow> []) else [])"
| "screen_name _ = []"

definition registered_screens :: "node \<Rightarrow> string list" where
  "registered_screens l = concat (map screen_name (subnodes l))"

section \<open>playground/test-app/app/index.tsx\<close>

text \<open>
  The router of \<open>useRouter()\<close> holds the stack of hrefs visited, the current one last;
  \<open>router.push\<close> adds one on top.
\<close>

type_synonym router = "string list"

definition router_push :: "string \<Rightarrow> router \<Rightarrow> router" where
  "router_push href r = r @ [href]"

definition navigateToConcept :: "router \<Rightarrow> router" where
  "navigateToConcept r = router_push ''/concept'' r"

definition handleTestConcept :: "string list" where
  "handleTestConcept =
     [''How to Test Concepts'',
      ''1. Copy any concept file from ../../concepts/'' @ [CHR 0x0A]
        @ ''2. Paste it in app/concept.tsx'' @ [CHR 0x0A]
        @ ''3. Save and see it in action!'',
      ''Got it!'']"

definition step_card :: "string \<Rightarrow> string \<Rightarrow> string \<Rightarrow> node" where
  "step_card n t d =
     View ''styles.card''
       [Text ''styles.stepNumber'' [Str n],
        View ''styles.stepContent''
          [Text ''styles.stepTitle'' [Str t], Text ''styles.stepText'' [Str d]]]"

definition Index_view :: node where
  "Index_view =
     (El ''ScrollView'' [(''style'', PRef ''styles.container'')]
        [View ''styles.header''
           [Text ''styles.title'' [Str ''React Native Test App''],
            Text ''styles.subtitle'' [Str ''Copy concepts to app/concept.tsx and test instantly'']],
         View ''styles.section''
           [Text ''styles.sectionTitle'' [Str ''Quick Start''],
            step_card ''1'' ''Choose a Concept'' ''Browse ../../concepts/ and pick any .tsx file'',
            step_card ''2'' ''Copy & Paste'' ''Copy content and paste into app/concept.tsx'',
            step_card ''3'' ''Test & Learn''
              (''Save and tap '' @ [CHR 0x22] @ ''Test Current Concept'' @ [CHR 0x22] @ '' below'')],
         View ''styles.actions''
           [El ''TouchableOpacity''
              [(''style'', PRef ''styles.primaryButton''), (''onPress'', PFn (Named ''navigateToConcept''))]
              [Text ''styles.primaryButtonText'' [Str ''Test Current Concept'']],
            El ''TouchableOpacity''
              [(''style'', PRef ''styles.secondaryButton''), (''onPress'', PFn (Named ''handleTestConcept''))]
              [Text ''styles.secondaryButtonText'' [Str ''How to Test?'']]],
         View ''styles.info''
           [Text ''styles.infoTitle'' [Str ''Available Concepts''],
            Text ''styles.infoText''
              [Str (folder_sign @ '' concepts/01-core-components/examples/text-basic.tsx'')],
            Text ''styles.infoText''
              [Str (folder_sign @ '' concepts/01-core-components/examples/view-basic.tsx'')],
            Text ''styles.infoSubtext''
              [Str (''Copy any concept '' @ rarrow @ '' paste in app/concept.tsx '' @ rarrow
                 @ '' save '' @ rarrow @ '' test!'')]]])"

definition Index :: component where
  "Index p = Inr Index_view"

text \<open>
  A press on an element of the index screen runs the handler its \<open>onPress\<close> names:
  \<open>navigateToConcept\<close> acts on the router, \<open>handleTestConcept\<close> only shows an alert.
\<close>

fun onPress_of :: "node \<Rightarrow> handler option" where
  "onPress_of (El t ps cs) = (case map_of ps ''onPress'' of Some (PFn h) \<Rightarrow> Some h | _ \<Rightarrow> None)"
| "onPress_of _ = None"

definition Index_press :: "node \<Rightarrow> router \<Rightarrow> router" where
  "Index_press n r =
     (if onPress_of n = Some (Named ''navigateToConcept'') then navigateToConcept r else r)"

section \<open>pressable-mastery.tsx\<close>

text \<open>
  \<^verbatim>\<open>const [pressCount, setPressCount] = useState(0);\<close>
  \<^verbatim>\<open>const [isToggled, setIsToggled] = useState(false);\<close>
\<close>

record PressableMastery_state =
  pressCount :: nat
  isToggled :: bool

definition PressableMastery_init :: PressableMastery_state where
  "PressableMastery_init = \<lparr>pressCount = 0, isToggled = False\<rparr>"

text \<open>
  The handlers are closures created by a render. \<open>r\<close> is the state that render saw,
  \<open>s\<close> the state at the time the handler runs.
  \<^verbatim>\<open>onPress={() => setPressCount(count => count + 1)}\<close> is a functional update and reads
  the current state; \<^verbatim>\<open>onPress={() => setIsToggled(!isToggled)}\<close> writes the negation of
  the value the render captured.
\<close>

definition count_onPress :: "PressableMastery_state \<Rightarrow> PressableMastery_state \<Rightarrow> PressableMastery_state" where
  "count_onPress r s = s\<lparr>pressCount := pressCount s + 1\<rparr>"

definition toggle_onPress :: "PressableMastery_state \<Rightarrow> PressableMastery_state \<Rightarrow> PressableMastery_state" where
  "toggle_onPress r s = s\<lparr>isToggled := \<not> isToggled r\<rparr>"

text \<open>\<^verbatim>\<open>{isToggled ? 'ON' : 'OFF'}\<close>\<close>

definition toggle_label :: "PressableMastery_state \<Rightarrow> string" where
  "toggle_label s = (if isToggled s then ''ON'' else ''OFF'')"

text \<open>\<^verbatim>\<open>{pressed ? 'Pressed!' : `Tap Count: ${pressCount}`}\<close>\<close>

definition count_label :: "bool \<Rightarrow> PressableMastery_state \<Rightarrow> string" where
  "count_label pressed s = (if pressed then ''Pressed!'' else ''Tap Count: '' @ decimal (pressCount s))"

text \<open>The "Toggle Button" section of the returned tree (lines 52 to 69).\<close>

definition toggle_section :: "PressableMastery_state \<Rightarrow> node" where
  "toggle_section s =
     El ''View'' [(''style'', PRef ''styles.section'')]
       [El ''Text'' [(''style'', PRef ''styles.sectionTitle'')] [Str ''Toggle Button''],
        El ''Pressable''
          [(''style'', PList (PRef ''styles.toggleButton'' #
              (if isToggled s then [PRef ''styles.toggledButton''] else []))),
           (''onPress'', PFn (SetH ''setIsToggled''))]
          [El ''Text''
             [(''style'', PList (PRef ''styles.buttonText'' #
                 (if isToggled s then [PRef ''styles.toggledText''] else [])))]
             [Str (toggle_label s)]]]"

text \<open>
  One press of the toggle button: React has rendered the current state before the next
  press is dispatched, so the handler that runs is the one of the render of \<open>s\<close>.
\<close>

definition press_toggle :: "PressableMastery_state \<Rightarrow> PressableMastery_state" where
  "press_toggle s = toggle_onPress s s"

definition press_count :: "PressableMastery_state \<Rightarrow> PressableMastery_state" where
  "press_count s = count_onPress s s"

section \<open>custom-components.tsx: CustomButton\<close>

datatype variant = primary | secondary | outline | ghost

datatype button_size = small | medium | large

text \<open>
  \<open>CustomButtonProps\<close>. An optional prop (\<open>variant?\<close>) is an option; the caller's
  callback \<open>onPress: () => void\<close> acts on the caller's world \<open>'w\<close>.
\<close>

record 'w CustomButtonProps =
  title :: string
  onPress :: "'w \<Rightarrow> 'w"
  variant :: "variant option"
  size_prop :: "button_size option"
  disabled :: "bool option"
  loading :: "bool option"
  leftIcon :: "string option"
  rightIcon :: "string option"
  fullWidth :: "bool option"

text \<open>The defaults of the destructuring pattern: \<open>disabled = false, loading = false\<close>, ...\<close>

definition variant_of :: "'w CustomButtonProps \<Rightarrow> variant" where
  "variant_of p = (case variant p of None \<Rightarrow> primary | Some v \<Rightarrow> v)"

definition size_of :: "'w CustomButtonProps \<Rightarrow> button_size" where
  "size_of p = (case size_prop p of None \<Rightarrow> medium | Some v \<Rightarrow> v)"

definition disabled_of :: "'w CustomButtonProps \<Rightarrow> bool" where
  "disabled_of p = (case disabled p of None \<Rightarrow> False | Some b \<Rightarrow> b)"

definition loading_of :: "'w CustomButtonProps \<Rightarrow> bool" where
  "loading_of p = (case loading p of None \<Rightarrow> False | Some b \<Rightarrow> b)"

definition fullWidth_of :: "'w CustomButtonProps \<Rightarrow> bool" where
  "fullWidth_of p = (case fullWidth p of None \<Rightarrow> False | Some b \<Rightarrow> b)"

fun getVariantStyle :: "variant \<Rightarrow> string" where
  "getVariantStyle primary = ''buttonStyleSheet.primaryButton''"
| "getVariantStyle secondary = ''buttonStyleSheet.secondaryButton''"
| "getVariantStyle outline = ''buttonStyleSheet.outlineButton''"
| "getVariantStyle ghost = ''buttonStyleSheet.ghostButton''"

fun getSizeStyle :: "button_size \<Rightarrow> string" where
  "getSizeStyle small = ''buttonStyleSheet.smallButton''"
| "getSizeStyle medium = ''buttonStyleSheet.mediumButton''"
| "getSizeStyle large = ''buttonStyleSheet.largeButton''"

fun getTextVariantStyle :: "variant \<Rightarrow> string" where
  "getTextVariantStyle primary = ''buttonStyleSheet.primaryText''"
| "getTextVariantStyle secondary = ''buttonStyleSheet.secondaryText''"
| "getTextVariantStyle outline = ''buttonStyleSheet.outlineText''"
| "getTextVariantStyle ghost = ''buttonStyleSheet.ghostText''"

fun getTextSizeStyle :: "button_size \<Rightarrow> string" where
  "getTextSizeStyle small = ''buttonStyleSheet.smallText''"
| "getTextSizeStyle medium = ''buttonStyleSheet.mediumText''"
| "getTextSizeStyle large = ''buttonStyleSheet.largeText''"

text \<open>Style arrays; a falsy entry (\<open>fullWidth && ...\<close>) contributes nothing.\<close>

definition buttonStyles :: "'w CustomButtonProps \<Rightarrow> string list" where
  "buttonStyles p =
     [''buttonStyleSheet.base'', getVariantStyle (variant_of p), getSizeStyle (size_of p)]
     @ (if fullWidth_of p then [''buttonStyleSheet.fullWidth''] else [])
     @ (if disabled_of p \<or> loading_of p then [''buttonStyleSheet.disabled''] else [])"

definition textStyles :: "'w CustomButtonProps \<Rightarrow> string list" where
  "textStyles p =
     [''buttonStyleSheet.text'', getTextVariantStyle (variant_of p), getTextSizeStyle (size_of p)]"

text \<open>
  \<^verbatim>\<open>const handlePress = useCallback(() => { if (!disabled && !loading) { onPress(); } }, ...)\<close>
\<close>

definition CustomButton_handlePress :: "'w CustomButtonProps \<Rightarrow> 'w \<Rightarrow> 'w" where
  "CustomButton_handlePress p w =
     (if \<not> disabled_of p \<and> \<not> loading_of p then onPress p w else w)"

text \<open>
  The \<open>Pressable\<close> element that \<open>CustomButton\<close> returns: its \<open>style\<close> function of the
  pressed flag, its \<open>onPress\<close> and \<open>disabled\<close> props and its children. In
  \<open>{leftIcon && <Text ...>}\<close> an absent icon leaves no child and an empty string is
  itself the child.
\<close>

record 'w Pressable =
  style_fn :: "bool \<Rightarrow> string list"
  onPress_prop :: "'w \<Rightarrow> 'w"
  disabled_prop :: bool
  content :: "node list"

definition style_list :: "string list \<Rightarrow> prop_value" where
  "style_list ss = PList (map PRef ss)"

definition CustomButton :: "'w CustomButtonProps \<Rightarrow> 'w Pressable" where
  "CustomButton p =
     \<lparr>style_fn = (\<lambda>pressed. buttonStyles p
          @ (if pressed \<and> \<not> disabled_of p \<and> \<not> loading_of p then [''buttonStyleSheet.pressed''] else [])),
      onPress_prop = CustomButton_handlePress p,
      disabled_prop = (disabled_of p \<or> loading_of p),
      content =
        [El ''View'' [(''style'', PRef ''buttonStyleSheet.content'')]
           ((case leftIcon p of None \<Rightarrow> [] | Some i \<Rightarrow>
               if i = [] then [Str i] else
               [El ''Text'' [(''style'', PList [style_list (textStyles p),
                   PObj [(''marginRight'', PRef ''theme.spacing.sm'')]])] [Str i]])
            @ [if loading_of p
               then El ''ActivityIndicator''
                      [(''size'', PStr ''small''),
                       (''color'', PRef (if variant_of p = outline \<or> variant_of p = ghost
                                         then ''theme.colors.primary'' else ''theme.colors.background''))] []
               else El ''Text'' [(''style'', style_list (textStyles p))] [Str (title p)]]
            @ (case rightIcon p of None \<Rightarrow> [] | Some i \<Rightarrow>
               if i = [] then [Str i] else
               [El ''Text'' [(''style'', PList [style_list (textStyles p),
                   PObj [(''marginLeft'', PRef ''theme.spacing.sm'')]])] [Str i]]))]\<rparr>"

text \<open>
  A press on a React Native \<open>Pressable\<close>: the \<open>onPress\<close> prop runs unless the
  \<open>disabled\<close> prop is set.
\<close>

definition press :: "'w Pressable \<Rightarrow> 'w \<Rightarrow> 'w" where
  "press b w = (if disabled_prop b then w else onPress_prop b w)"

text \<open>
  A disabled "Save" button whose callback counts its invocations: a press leaves the
  count at 0. The same button enabled counts the press.
\<close>

definition save_button :: "bool option \<Rightarrow> bool option \<Rightarrow> nat CustomButtonProps" where
  "save_button d l =
     \<lparr>title = ''Save'', onPress = Suc, variant = None, size_prop = None, disabled = d,
      loading = l, leftIcon = None, rightIcon = None, fullWidth = None\<rparr>"

section \<open>The module interface of the example units\<close>

text \<open>
  What each example file declares at module level: its \<open>export\<close>
  statements, with the number of parameters of the exported function, and the
  \<open>useState\<close> hooks of its components, each with the component that owns it and
  with where its initial value comes from: a literal, a read of the \<open>Platform\<close> or
  \<open>Dimensions\<close> API, or a prop of the owning component.
\<close>

record export_decl =
  exported :: string
  is_default :: bool
  parameters :: nat

datatype init_source = Literal | PlatformRead | FromProp string

record hook =
  owner :: string
  state_name :: string
  init :: init_source

record unit_module =
  file_name :: string
  exports :: "export_decl list"
  hooks :: "hook list"

definition default_export :: "string \<Rightarrow> export_decl" where
  "default_export n = \<lparr>exported = n, is_default = True, parameters = 0\<rparr>"

definition useState :: "string \<Rightarrow> string \<Rightarrow> init_source \<Rightarrow> hook" where
  "useState c n i = \<lparr>owner = c, state_name = n, init = i\<rparr>"

definition architecture_visualization_tsx :: unit_module where
  "architecture_visualization_tsx =
     \<lparr>file_name = ''concepts/01-fundamentals/architecture-visualization.tsx'',
      exports = [default_export ''ArchitectureVisualization''],
      hooks = [useState ''ArchitectureVisualization'' ''tapCount'' Literal,
               useState ''ArchitectureVisualization'' ''showInfo'' Literal]\<rparr>"

definition platform_detection_tsx :: unit_module where
  "platform_detection_tsx =
     \<lparr>file_name = ''concepts/01-fundamentals/platform-detection.tsx'',
      exports = [default_export ''PlatformDetectionExample''],
      hooks = [useState ''PlatformDetectionExample'' ''deviceInfo'' PlatformRead]\<rparr>"

definition pressable_mastery_tsx :: unit_module where
  "pressable_mastery_tsx =
     \<lparr>file_name = ''concepts/04-interactive-components/pressable-mastery.tsx'',
      exports = [default_export ''PressableMastery''],
      hooks = [useState ''PressableMastery'' ''pressCount'' Literal,
               useState ''PressableMastery'' ''isToggled'' Literal]\<rparr>"

definition button_basics_tsx :: unit_module where
  "button_basics_tsx =
     \<lparr>file_name = ''concepts/04-interactive-components/button-basics.tsx'',
      exports = [default_export ''ButtonBasics''],
      hooks = []\<rparr>"

text \<open>
  The custom-components unit (its directory is not recorded with the file) declares
  helper components of its own. \<open>Accordion\<close> starts its state from its prop
  \<open>defaultExpanded\<close>, which the unit passes itself.
\<close>

definition custom_components_tsx :: unit_module where
  "custom_components_tsx =
     \<lparr>file_name = ''custom-components.tsx'',
      exports = [default_export ''CustomComponentsExample''],
      hooks = [useState ''InputField'' ''isFocused'' Literal,
               useState ''Accordion'' ''expanded'' (FromProp ''defaultExpanded''),
               useState ''CustomComponentsExample'' ''formData'' Literal,
               useState ''CustomComponentsExample'' ''errors'' Literal,
               useState ''CustomComponentsExample'' ''showPassword'' Literal,
               useState ''CustomComponentsExample'' ''selectedItems'' Literal,
               useState ''CustomComponentsExample'' ''loading'' Literal]\<rparr>"

definition inline_styles_tsx :: unit_module where
  "inline_styles_tsx =
     \<lparr>file_name = ''concepts/03-basic-styling/inline-styles.tsx'',
      exports = [default_export ''InlineStylesExample''],
      hooks = [useState ''InlineStylesExample'' ''isPressed'' Literal,
               useState ''InlineStylesExample'' ''selectedTheme'' Literal,
               useState ''InlineStylesExample'' ''fontSize'' Literal]\<rparr>"

definition concept_tsx :: unit_module where
  "concept_tsx =
     \<lparr>file_name = ''playground/test-app/app/concept.tsx'',
      exports = [default_export ''TextBasicExample''],
      hooks = []\<rparr>"

text \<open>
  The example units at hand: every file with a component for the slot. The root layout
  and the index screen are the host's own and are not among them.
\<close>

definition example_units :: "unit_module list" where
  "example_units =
     [architecture_visualization_tsx, platform_detection_tsx, inline_styles_tsx,
      pressable_mastery_tsx, button_basics_tsx, custom_components_tsx, concept_tsx]"

definition entry_points :: "unit_module \<Rightarrow> string list" where
  "entry_points m = map exported (filter is_default (exports m))"

text \<open>
  A unit stands on its own when it has one export, that export is the default one and
  takes no parameter, and no hook of the exported component starts from a prop.
\<close>

fun from_prop :: "init_source \<Rightarrow> bool" where
  "from_prop (FromProp x) = True"
| "from_prop _ = False"

definition entry_hooks :: "unit_module \<Rightarrow> hook list" where
  "entry_hooks m = filter (\<lambda>k. owner k \<in> set (map exported (exports m))) (hooks m)"

definition self_contained :: "unit_module \<Rightarrow> bool" where
  "self_contained m =
     (length (exports m) = 1
      \<and> list_all (\<lambda>e. is_default e \<and> parameters e = 0) (exports m)
      \<and> list_all (\<lambda>k. \<not> from_prop (init k)) (entry_hooks m))"

section \<open>The playground: slot, swap and host\<close>

text \<open>
  The repository holds no program for the swap or for the host's render loop. A swap is
  the command of \<open>playground/README.md\<close> and \<open>docs/testing.md\<close>,
  \<^verbatim>\<open>cp ../../concepts/01-fundamentals/platform-detection.tsx app/index.tsx\<close>,
  typed by the learner, and the screen is rendered by expo-router under the root layout.
  Both are modelled here from the spec's description of them; the root layout and the
  units they act on are the ones translated from the source above.
\<close>

type_synonym path = string

text \<open>
  Modelled from the spec: the files the host and the swap see (the code of the swap and
  of the file system is not part of the repository). A \<open>.tsx\<close> file holds the component
  it exports by default; \<open>read_only\<close> lists the paths without write permission;
  \<open>history\<close> is the router's stack.
\<close>

record host =
  files :: "path \<rightharpoonup> component"
  read_only :: "path list"
  history :: router

text \<open>
  Modelled from the spec: the Slot's \<open>write(content)\<close> (no code in the repository),
  which overwrites the prior content unconditionally, with no merge and no validation.
\<close>

definition slot_write :: "path \<Rightarrow> component \<Rightarrow> host \<Rightarrow> host" where
  "slot_write slot c h = h\<lparr>files := (files h)(slot \<mapsto> c)\<rparr>"

text \<open>Modelled from the spec: the Slot's implicit \<open>read()\<close>, done by the host's render step.\<close>

definition slot_read :: "path \<Rightarrow> host \<Rightarrow> component option" where
  "slot_read slot h = files h slot"

text \<open>
  Modelled from the spec: the failures of the Swap Mechanism, source not found and write
  permission denied.
\<close>

datatype swap_error = SourceNotFound path | WriteDenied path

text \<open>
  Modelled from the spec: the Swap Mechanism (the \<open>cp\<close> of the README, no code in the
  repository). The source must exist; the slot must be writable; then the slot is
  overwritten with the source's content. A failure is reported and nothing is written.
\<close>

definition Swap :: "path \<Rightarrow> path \<Rightarrow> host \<Rightarrow> swap_error + host" where
  "Swap slot E h =
     (case files h E of
        None \<Rightarrow> Inl (SourceNotFound E)
      | Some c \<Rightarrow>
          if slot \<in> set (read_only h) then Inl (WriteDenied slot)
          else Inr (slot_write slot c h))"

text \<open>
  Modelled from the spec: the href on screen, the top of the router's stack, \<open>/\<close> when
  nothing was pushed (expo-router's navigation, not code of the repository).
\<close>

definition active_href :: "host \<Rightarrow> string" where
  "active_href h = (if history h = [] then ''/'' else last (history h))"

text \<open>
  Modelled from the spec: the screen an href names under expo-router's file-based routing
  (not code of the repository): \<open>/\<close> is the screen \<open>index\<close>, \<open>/concept\<close> the screen
  \<open>concept\<close>.
\<close>

definition screen_of_href :: "string \<Rightarrow> string" where
  "screen_of_href href =
     (if href = ''/'' \<or> href = [] then ''index''
      else if hd href = CHR ''/'' then tl href else href)"

text \<open>
  Modelled from the spec: the file of a screen under file-based routing, \<open>app/s.tsx\<close>
  for the screen \<open>s\<close>.
\<close>

definition file_of_screen :: "string \<Rightarrow> path" where
  "file_of_screen s = ''app/'' @ s @ ''.tsx''"

text \<open>Modelled from the spec: the file whose content the host has on screen.\<close>

definition active_file :: "host \<Rightarrow> path" where
  "active_file h = file_of_screen (screen_of_href (active_href h))"

text \<open>
  Modelled from the spec: what a render step of the Preview Host ends in. Either the
  layout and the screen are rendered; or the screen's component threw and the host shows,
  under the same layout, a fallback error view with the failure detail; or the active
  file is missing. The fallback is the spec's: the root layout of the repository declares
  no error boundary of its own.
\<close>

datatype render_result = Rendered node node | Fallback node render_error | NoScreen

text \<open>
  Modelled from the spec: the Preview Host's render step (performed by expo-router, not
  by code of the repository). The host renders the root layout, and as the one screen
  the component held by the active file. The root layout is the program the host runs:
  its file is not one of the files of the model, which are the slot files and the unit
  files that a swap reads and writes.
\<close>

definition host_render :: "host \<Rightarrow> platform \<Rightarrow> render_result" where
  "host_render h p =
     (case files h (active_file h) of
        None \<Rightarrow> NoScreen
      | Some c \<Rightarrow> (case c p of Inl e \<Rightarrow> Fallback RootLayout e | Inr t \<Rightarrow> Rendered RootLayout t))"


text \<open>Modelled from the spec: the tree of the unit on screen, when the unit rendered.\<close>

fun screen_of :: "render_result \<Rightarrow> node option" where
  "screen_of (Rendered l t) = Some t"
| "screen_of _ = None"



text \<open>What a tree displays: the text of every \<open>Text\<close> element, in document order.\<close>

definition shown_texts :: "node \<Rightarrow> string option list" where
  "shown_texts t = map text_of (filter (\<lambda>n. tag n = ''Text'') (subnodes t))"

text \<open>
  The value displayed under a label: an element with two children, the first showing the
  label, displays the text of the second.
\<close>

fun card_value :: "string \<Rightarrow> node \<Rightarrow> string option" where
  "card_value lbl (El t ps [a, b]) = (if text_of a = Some lbl then text_of b else None)"
| "card_value lbl n = None"

definition displayed_values :: "string \<Rightarrow> node \<Rightarrow> string list" where
  "displayed_values lbl t = List.map_filter (card_value lbl) (subnodes t)"

text \<open>The titles of the \<open>Button\<close> elements of a tree.\<close>

fun button_title :: "node \<Rightarrow> string option" where
  "button_title (El t ps cs) =
     (if t = ''Button'' then (case map_of ps ''title'' of Some (PStr s) \<Rightarrow> Some s | _ \<Rightarrow> None) else None)"
| "button_title n = None"

definition button_titles :: "node \<Rightarrow> string list" where
  "button_titles t = List.map_filter button_title (subnodes t)"

text \<open>The two slot files and the paths of two units, relative to \<open>playground/test-app\<close>.\<close>

definition index_slot :: path where
  "index_slot = ''app/index.tsx''"

definition concept_slot :: path where
  "concept_slot = ''app/concept.tsx''"

definition platform_detection_path :: path where
  "platform_detection_path = ''../../concepts/01-fundamentals/platform-detection.tsx''"

definition button_basics_path :: path where
  "button_basics_path = ''../../concepts/04-interactive-components/button-basics.tsx''"

text \<open>
  The playground as checked out, started, with two units next to it; an iPhone and a
  Windows machine as platforms. \<open>windows\<close> is a value of \<open>Platform.OS\<close> for which
  \<open>PLATFORM_COLORS\<close> has no entry.
\<close>

definition playground :: host where
  "playground =
     \<lparr>files = [index_slot \<mapsto> Index, concept_slot \<mapsto> TextBasicExample,
               platform_detection_path \<mapsto> PlatformDetectionExample,
               button_basics_path \<mapsto> ButtonBasics],
      read_only = [],
      history = [''/'']\<rparr>"

definition iphone :: platform where
  "iphone =
     \<lparr>OS = ''ios'', Version = VString ''17.0'', isTV = False, isTesting = False,
      window = \<lparr>width = 390, height = 844, scale = 3, fontScale = 1\<rparr>\<rparr>"


section \<open>Facts about the model of the playground\<close>

lemma files_slot_write: "files (slot_write slot c h) = (files h)(slot \<mapsto> c)"
  by (simp add: slot_write_def)

lemma history_slot_write: "history (slot_write slot c h) = history h"
  by (simp add: slot_write_def)

lemma read_only_slot_write: "read_only (slot_write slot c h) = read_only h"
  by (simp add: slot_write_def)

lemma active_file_slot_write: "active_file (slot_write slot c h) = active_file h"
  by (simp add: active_file_def active_href_def history_slot_write)

lemma slot_write_twice: "slot_write slot c (slot_write slot c0 h) = slot_write slot c h"
  by (simp add: slot_write_def)

lemma Swap_Inr:
  "files h E = Some c \<Longrightarrow> slot \<notin> set (read_only h) \<Longrightarrow> Swap slot E h = Inr (slot_write slot c h)"
  by (simp add: Swap_def)

lemma Swap_InrD:
  "Swap slot E h = Inr h' \<Longrightarrow>
     \<exists>c. files h E = Some c \<and> slot \<notin> set (read_only h) \<and> h' = slot_write slot c h"
  by (auto simp: Swap_def split: option.splits if_splits)

lemma host_render_slot_write:
  "active_file h = slot \<Longrightarrow>
     host_render (slot_write slot c h) p =
       (case c p of Inl e \<Rightarrow> Fallback RootLayout e | Inr t \<Rightarrow> Rendered RootLayout t)"
  by (simp add: host_render_def active_file_slot_write files_slot_write)



text \<open>The playground as checked out: what is where, and which file is on screen.\<close>

lemma playground_files:
  "files playground index_slot = Some Index"
  "files playground concept_slot = Some TextBasicExample"
  "files playground platform_detection_path = Some PlatformDetectionExample"
  "files playground button_basics_path = Some ButtonBasics"
  by (simp_all add: playground_def index_slot_def concept_slot_def
      platform_detection_path_def button_basics_path_def)

lemma playground_writable: "slot \<notin> set (read_only playground)"
  by (simp add: playground_def)

lemma playground_active: "active_file playground = index_slot"
  by (simp add: playground_def active_file_def active_href_def screen_of_href_def
      file_of_screen_def index_slot_def)

lemma unit_paths_not_slot:
  "button_basics_path \<noteq> index_slot" "platform_detection_path \<noteq> index_slot"
  by (simp_all add: button_basics_path_def platform_detection_path_def index_slot_def)

lemma iphone_OS: "OS iphone = ''ios''"
  by (simp add: iphone_def)


lemma shown_texts_ButtonBasics:
  "shown_texts ButtonBasics_view =
     [Some ''React Native Button Examples'', Some ''Basic Button'', Some ''Colored Button'',
      Some ''Disabled Button'', Some ''Action Buttons'', Some ''Button Limitations:'',
      Some (bullet @ '' Limited styling options'' @ [CHR 0x0A]
         @ bullet @ '' Platform-specific appearance'' @ [CHR 0x0A]
         @ bullet @ '' No custom layout flexibility'' @ [CHR 0x0A]
         @ bullet @ '' Consider Pressable for custom designs'')]"
  by (simp add: shown_texts_def ButtonBasics_view_def)

lemma button_titles_ButtonBasics:
  "button_titles ButtonBasics_view = [''Press Me'', ''Blue Button'', ''Disabled'', ''Save'', ''Cancel'']"
  by (simp add: button_titles_def ButtonBasics_view_def)

lemma displayed_values_ButtonBasics: "displayed_values ''Platform'' ButtonBasics_view = []"
  by (simp add: displayed_values_def ButtonBasics_view_def)

lemma PlatformDetection_Platform:
  assumes "OS p = ''ios'' \<or> OS p = ''android'' \<or> OS p = ''web''"
  shows "\<exists>t. PlatformDetectionExample p = Inr t
     \<and> displayed_values ''Platform'' t = [OS p @ '' '' @ platform_suffix (OS p)]"
  using assms
  by (auto simp: PlatformDetectionExample_def PlatformDetectionExample_render_def PLATFORM_COLORS_def
      displayed_values_def platform_card_def platform_suffix_def)

section \<open>Swap and render\<close>

text \<open>
  C1. For every valid example unit \<open>E\<close> (one that is there and renders on the platform),
  after \<open>Swap(E)\<close> into the slot on screen the host's next render displays exactly the
  tree \<open>E\<close>'s exported component returns, under the root layout. Nothing of the unit
  that occupied the slot before remains: whatever content \<open>c0\<close> the slot held, the swap
  ends in the same state.
\<close>

theorem swap_displays_unit:
  assumes "files h E = Some c" and "c p = Inr t"
    and "slot \<notin> set (read_only h)" and "active_file h = slot"
  shows "Swap slot E h = Inr (slot_write slot c h)
     \<and> host_render (slot_write slot c h) p = Rendered RootLayout t
     \<and> screen_of (host_render (slot_write slot c h) p) = Some t
     \<and> (E \<noteq> slot \<longrightarrow> Swap slot E (slot_write slot c0 h) = Inr (slot_write slot c h))"
proof -
  have "E \<noteq> slot \<Longrightarrow> Swap slot E (slot_write slot c0 h) = Inr (slot_write slot c h)"
    using assms(1,3)
    by (simp add: Swap_def files_slot_write read_only_slot_write slot_write_twice)
  then show ?thesis
    using assms by (simp add: Swap_Inr host_render_slot_write)
qed

theorem swap_displays_unit_witness:
  "Swap index_slot button_basics_path playground = Inr (slot_write index_slot ButtonBasics playground)
   \<and> host_render (slot_write index_slot ButtonBasics playground) iphone
       = Rendered RootLayout ButtonBasics_view
   \<and> Swap index_slot button_basics_path (slot_write index_slot TextBasicExample playground)
       = Inr (slot_write index_slot ButtonBasics playground)"
proof -
  have "ButtonBasics iphone = Inr ButtonBasics_view"
    by (simp add: ButtonBasics_def)
  from swap_displays_unit [OF playground_files(4) this playground_writable playground_active,
      of TextBasicExample]
  show ?thesis
    by (simp add: unit_paths_not_slot)
qed

text \<open>
  C2. The slot's write replaces the whole prior content with the new content, with no
  condition on either (no merge, no validation: the content written may be any component,
  also one that fails to render). So for units \<open>E1\<close> and \<open>E2\<close>, \<open>Swap(E1); Swap(E2)\<close>
  leaves the slot holding exactly \<open>E2\<close>'s content, the state a lone \<open>Swap(E2)\<close> gives.
\<close>

theorem slot_write_overwrites:
  "slot_read slot (slot_write slot c h) = Some c
   \<and> slot_write slot c (slot_write slot c0 h) = slot_write slot c h
   \<and> (files h E1 = Some c1 \<and> files h E2 = Some c2 \<and> E2 \<noteq> slot \<and> slot \<notin> set (read_only h) \<longrightarrow>
        Swap slot E1 h = Inr (slot_write slot c1 h)
        \<and> Swap slot E2 (slot_write slot c1 h) = Inr (slot_write slot c2 h)
        \<and> Swap slot E2 h = Inr (slot_write slot c2 h)
        \<and> slot_read slot (slot_write slot c2 h) = Some c2)"
  by (simp add: slot_read_def Swap_def files_slot_write read_only_slot_write slot_write_twice)

theorem slot_write_overwrites_witness:
  "Swap index_slot platform_detection_path playground
     = Inr (slot_write index_slot PlatformDetectionExample playground)
   \<and> Swap index_slot button_basics_path (slot_write index_slot PlatformDetectionExample playground)
     = Inr (slot_write index_slot ButtonBasics playground)
   \<and> slot_read index_slot (slot_write index_slot ButtonBasics playground) = Some ButtonBasics"
  using slot_write_overwrites [of index_slot ButtonBasics playground Index
      platform_detection_path PlatformDetectionExample button_basics_path ButtonBasics]
  by (simp add: playground_files playground_writable unit_paths_not_slot)

text \<open>
  C3. Swap is idempotent: after a \<open>Swap(E)\<close> that succeeded, a second \<open>Swap(E)\<close>
  succeeds and leaves the host as it was, so the displayed output is that of the single
  swap.
\<close>

theorem swap_idempotent:
  assumes "Swap slot E h = Inr h1"
  shows "\<exists>h2. Swap slot E h1 = Inr h2 \<and> h2 = h1 \<and> host_render h2 p = host_render h1 p"
proof -
  from assms obtain c where c: "files h E = Some c" "slot \<notin> set (read_only h)" "h1 = slot_write slot c h"
    using Swap_InrD by blast
  have "files h1 E = Some c"
    using c by (simp add: files_slot_write)
  then have "Swap slot E h1 = Inr (slot_write slot c h1)"
    using c by (simp add: Swap_Inr read_only_slot_write)
  then show ?thesis
    using c by (simp add: slot_write_twice)
qed

theorem swap_idempotent_witness:
  "Swap index_slot button_basics_path playground = Inr (slot_write index_slot ButtonBasics playground)
   \<and> Swap index_slot button_basics_path (slot_write index_slot ButtonBasics playground)
       = Inr (slot_write index_slot ButtonBasics playground)"
proof -
  have s: "Swap index_slot button_basics_path playground = Inr (slot_write index_slot ButtonBasics playground)"
    by (simp add: Swap_Inr playground_files playground_writable)
  from swap_idempotent [OF s, of iphone] s show ?thesis
    by auto
qed



text \<open>
  C7, as the code has it. On a target platform \<open>A\<close> among ios, android and web, after
  the platform-detection unit is swapped in, the value displayed under the label
  "Platform" is \<open>A\<close>'s identifier followed by a space and a name in parentheses
  ("(iOS)", "(Android)" or "(Other)"). After the button-basics unit is swapped in next,
  the tree on screen has no "Platform" label, no text showing that value, and a button
  titled "Press Me".
\<close>

theorem platform_then_button:
  assumes "OS p = ''ios'' \<or> OS p = ''android'' \<or> OS p = ''web''"
    and "files h pd = Some PlatformDetectionExample" and "files h bb = Some ButtonBasics"
    and "bb \<noteq> slot" and "slot \<notin> set (read_only h)" and "active_file h = slot"
  shows "\<exists>t1. Swap slot pd h = Inr (slot_write slot PlatformDetectionExample h)
     \<and> host_render (slot_write slot PlatformDetectionExample h) p = Rendered RootLayout t1
     \<and> displayed_values ''Platform'' t1 = [OS p @ '' '' @ platform_suffix (OS p)]
     \<and> Swap slot bb (slot_write slot PlatformDetectionExample h) = Inr (slot_write slot ButtonBasics h)
     \<and> host_render (slot_write slot ButtonBasics h) p = Rendered RootLayout ButtonBasics_view
     \<and> displayed_values ''Platform'' ButtonBasics_view = []
     \<and> Some (OS p @ '' '' @ platform_suffix (OS p)) \<notin> set (shown_texts ButtonBasics_view)
     \<and> Some ''Platform'' \<notin> set (shown_texts ButtonBasics_view)
     \<and> ''Press Me'' \<in> set (button_titles ButtonBasics_view)"
proof -
  from PlatformDetection_Platform [OF assms(1)] obtain t1
    where t1: "PlatformDetectionExample p = Inr t1"
      "displayed_values ''Platform'' t1 = [OS p @ '' '' @ platform_suffix (OS p)]"
    by blast
  have s1: "Swap slot pd h = Inr (slot_write slot PlatformDetectionExample h)"
    using assms by (simp add: Swap_Inr)
  have r1: "host_render (slot_write slot PlatformDetectionExample h) p = Rendered RootLayout t1"
    using assms t1 by (simp add: host_render_slot_write)
  have s2: "Swap slot bb (slot_write slot PlatformDetectionExample h) = Inr (slot_write slot ButtonBasics h)"
    using assms by (simp add: Swap_def files_slot_write read_only_slot_write slot_write_twice)
  have r2: "host_render (slot_write slot ButtonBasics h) p = Rendered RootLayout ButtonBasics_view"
    using assms by (simp add: host_render_slot_write ButtonBasics_def)
  have gone: "Some (OS p @ '' '' @ platform_suffix (OS p)) \<notin> set (shown_texts ButtonBasics_view)"
    using assms(1) by (auto simp: shown_texts_ButtonBasics platform_suffix_def bullet_def)
  have lbl: "Some ''Platform'' \<notin> set (shown_texts ButtonBasics_view)"
    by (simp add: shown_texts_ButtonBasics bullet_def)
  have btn: "''Press Me'' \<in> set (button_titles ButtonBasics_view)"
    by (simp add: button_titles_ButtonBasics)
  show ?thesis
    using t1 s1 r1 s2 r2 gone lbl btn displayed_values_ButtonBasics by blast
qed

theorem platform_then_button_witness:
  "OS iphone = ''ios''
   \<and> Swap index_slot platform_detection_path playground
       = Inr (slot_write index_slot PlatformDetectionExample playground)
   \<and> map_option (displayed_values ''Platform'')
        (screen_of (host_render (slot_write index_slot PlatformDetectionExample playground) iphone))
       = Some [''ios (iOS)'']
   \<and> host_render (slot_write index_slot ButtonBasics playground) iphone
       = Rendered RootLayout ButtonBasics_view
   \<and> ''Press Me'' \<in> set (button_titles ButtonBasics_view)"
proof -
  have os: "OS iphone = ''ios'' \<or> OS iphone = ''android'' \<or> OS iphone = ''web''"
    by (simp add: iphone_OS)
  from platform_then_button [OF os playground_files(3) playground_files(4)
      unit_paths_not_slot(1) playground_writable playground_active]
  show ?thesis
    by (auto simp: iphone_OS platform_suffix_def)
qed

text \<open>
  C7 as the spec states it fails: on an iPhone the value displayed under "Platform" after
  the swap is "ios (iOS)", which is not the identifier "ios".
\<close>

theorem platform_label_counterexample:
  "Swap index_slot platform_detection_path playground
       = Inr (slot_write index_slot PlatformDetectionExample playground)
   \<and> map_option (displayed_values ''Platform'')
        (screen_of (host_render (slot_write index_slot PlatformDetectionExample playground) iphone))
       = Some [''ios (iOS)'']
   \<and> OS iphone = ''ios''
   \<and> ''ios (iOS)'' \<noteq> OS iphone"
proof -
  have os: "OS iphone = ''ios'' \<or> OS iphone = ''android'' \<or> OS iphone = ''web''"
    by (simp add: iphone_OS)
  from PlatformDetection_Platform [OF os] obtain t
    where t: "PlatformDetectionExample iphone = Inr t" "displayed_values ''Platform'' t = [''ios (iOS)'']"
    by (auto simp: iphone_OS platform_suffix_def)
  then show ?thesis
    by (simp add: Swap_Inr playground_files playground_writable host_render_slot_write
        playground_active iphone_OS)
qed

section \<open>The root layout and the index screen\<close>

text \<open>
  C8. The root layout registers exactly the two screens "index" and "concept", which are
  the files \<open>app/index.tsx\<close> and \<open>app/concept.tsx\<close>. The index screen has one element
  whose press runs \<open>navigateToConcept\<close>; that handler pushes the route "/concept", after
  which the file on screen is \<open>app/concept.tsx\<close>, where before any navigation it is
  \<open>app/index.tsx\<close>.
\<close>

theorem layout_links_index_to_concept:
  "registered_screens RootLayout = [''index'', ''concept'']
   \<and> map file_of_screen (registered_screens RootLayout) = [index_slot, concept_slot]
   \<and> filter (\<lambda>n. onPress_of n = Some (Named ''navigateToConcept'')) (subnodes Index_view)
       = [El ''TouchableOpacity''
            [(''style'', PRef ''styles.primaryButton''), (''onPress'', PFn (Named ''navigateToConcept''))]
            [Text ''styles.primaryButtonText'' [Str ''Test Current Concept'']]]
   \<and> Index_press (El ''TouchableOpacity''
            [(''style'', PRef ''styles.primaryButton''), (''onPress'', PFn (Named ''navigateToConcept''))]
            [Text ''styles.primaryButtonText'' [Str ''Test Current Concept'']]) r = r @ [''/concept'']
   \<and> navigateToConcept r = router_push ''/concept'' r
   \<and> active_file (h\<lparr>history := []\<rparr>) = index_slot
   \<and> active_file (h\<lparr>history := navigateToConcept (history h)\<rparr>) = concept_slot"
  by (simp add: registered_screens_def RootLayout_def file_of_screen_def index_slot_def concept_slot_def
      Index_view_def step_card_def Index_press_def navigateToConcept_def router_push_def
      active_file_def active_href_def screen_of_href_def)

section \<open>The example units stand on their own\<close>

text \<open>
  C4. Every example unit exports exactly one entry point, its default export, which takes
  no props, and every state hook of that component starts from a literal or from the
  platform API, never from a prop. The units are the seven at hand, with these entry
  points.
\<close>

theorem example_units_self_contained:
  "list_all self_contained example_units
   \<and> map entry_points example_units =
       [[''ArchitectureVisualization''], [''PlatformDetectionExample''], [''InlineStylesExample''],
        [''PressableMastery''], [''ButtonBasics''], [''CustomComponentsExample''],
        [''TextBasicExample'']]
   \<and> map (\<lambda>m. length (exports m)) example_units = [1, 1, 1, 1, 1, 1, 1]
   \<and> map (\<lambda>m. map parameters (exports m)) example_units = [[0], [0], [0], [0], [0], [0], [0]]"
  by (simp add: example_units_def self_contained_def entry_hooks_def entry_points_def useState_def
      architecture_visualization_tsx_def platform_detection_tsx_def inline_styles_tsx_def
      pressable_mastery_tsx_def button_basics_tsx_def custom_components_tsx_def concept_tsx_def
      default_export_def)

section \<open>Properties of the toggle button\<close>

text \<open>
  C9. In pressable-mastery, each press of the toggle button negates \<open>isToggled\<close>, so two
  presses from any state restore it, and the button's label reads "ON" exactly when
  \<open>isToggled\<close> is true and "OFF" otherwise.
\<close>

theorem toggle_press_negates:
  "isToggled (press_toggle s) = (\<not> isToggled s)
   \<and> press_toggle (press_toggle s) = s
   \<and> (toggle_label s = ''ON'') = isToggled s
   \<and> (toggle_label s = ''OFF'') = (\<not> isToggled s)
   \<and> text_of (children (toggle_section s) ! 1) = Some (if isToggled s then ''ON'' else ''OFF'')"
  by (simp add: press_toggle_def toggle_onPress_def toggle_label_def toggle_section_def)

theorem toggle_press_negates_witness:
  "isToggled (press_toggle PressableMastery_init)
   \<and> press_toggle (press_toggle PressableMastery_init) = PressableMastery_init
   \<and> toggle_label PressableMastery_init = ''OFF''
   \<and> toggle_label (press_toggle PressableMastery_init) = ''ON''"
  using toggle_press_negates [of PressableMastery_init]
    toggle_press_negates [of "press_toggle PressableMastery_init"]
  by (simp add: PressableMastery_init_def)

section \<open>Properties of CustomButton\<close>

text \<open>
  C10. CustomButton never invokes the caller's \<open>onPress\<close> while \<open>disabled\<close> or
  \<open>loading\<close> is true: the handler runs the callback only under not-disabled and
  not-loading, and the Pressable underneath is disabled under the same condition, so
  whatever the callback would do, the caller's world is left as it was.
\<close>

theorem CustomButton_guarded:
  "CustomButton_handlePress p w = (if \<not> disabled_of p \<and> \<not> loading_of p then onPress p w else w)
   \<and> disabled_prop (CustomButton p) = (disabled_of p \<or> loading_of p)
   \<and> (disabled_of p \<or> loading_of p \<longrightarrow>
        CustomButton_handlePress p w = w \<and> press (CustomButton p) w = w)"
  by (simp add: CustomButton_handlePress_def CustomButton_def press_def)

theorem CustomButton_guarded_witness:
  "disabled_of (save_button (Some True) None)
   \<and> press (CustomButton (save_button (Some True) None)) 0 = 0
   \<and> CustomButton_handlePress (save_button (Some True) None) 0 = 0
   \<and> loading_of (save_button None (Some True))
   \<and> press (CustomButton (save_button None (Some True))) 0 = 0
   \<and> CustomButton_handlePress (save_button None None) 0 = 1"
  using CustomButton_guarded [of "save_button (Some True) None" 0]
    CustomButton_guarded [of "save_button None (Some True)" 0]
    CustomButton_guarded [of "save_button None None" 0]
  by (simp add: save_button_def disabled_of_def loading_of_def)

end
